theory Spec2Isabelle
  imports Main "HOL-Library.Word"
begin

section \<open>The parallel runner of \<^verbatim>\<open>src/build.js\<close>\<close>

text \<open>
  \<^verbatim>\<open>build.js\<close> forks a Gatsby build, receives its \<^verbatim>\<open>JOB_CREATED\<close> messages, hands
  every image job to external workers over a publish/subscribe bus (or a storage bucket
  when the message is too big), keeps the jobs that are under way in the map
  \<^verbatim>\<open>jobsInProcess\<close>, and reports \<^verbatim>\<open>JOB_COMPLETED\<close> or \<^verbatim>\<open>JOB_FAILED\<close> back to Gatsby.

  The program is a set of callbacks on the single-threaded event loop of Node. Each
  callback runs to its next \<^verbatim>\<open>await\<close> (or to its end) without interruption, so the model
  has one definition per such piece of code: the definition reads the state the piece
  starts in and gives the list of effects the piece performs, in the order of the
  source. Running the list on the state gives the state the piece ends in. What the
  outside world decides (the content of a file, whether a publish, a save or a write of
  the output files succeeds, when a timer is due) comes in with the event that resumes
  the code.
\<close>

subsection \<open>Data\<close>

type_synonym byte = "8 word"

text \<open>The constants of \<^verbatim>\<open>MESSAGE_TYPES\<close> (lines 13-22) are strings.\<close>

definition LOG_ACTION :: string where "LOG_ACTION = ''LOG_ACTION''"
definition JOB_CREATED :: string where "JOB_CREATED = ''JOB_CREATED''"
definition JOB_COMPLETED :: string where "JOB_COMPLETED = ''JOB_COMPLETED''"
definition JOB_FAILED :: string where "JOB_FAILED = ''JOB_FAILED''"

definition MAX_JOB_TIME :: nat where "MAX_JOB_TIME = 60000"
definition MAX_PUB_SUB_SIZE :: nat where "MAX_PUB_SUB_SIZE = 1024 * 1024 * 5"

text \<open>
  The payload of a \<^verbatim>\<open>JOB_CREATED\<close> message. \<^verbatim>\<open>inputPaths\<close> may be absent
  (\<^verbatim>\<open>undefined\<close> or \<^verbatim>\<open>null\<close>), which is \<open>None\<close>; an array, also the empty one, is
  \<open>Some\<close>. \<^verbatim>\<open>args\<close> is opaque to the runner.
\<close>

record input_path =
  path :: string

record job =
  job_name :: string
  job_id :: string
  inputPaths :: "input_path list option"
  outputDir :: string
  args :: string

record gatsby_message =
  gm_type :: string
  gm_payload :: job

text \<open>
  What a worker sends back: \<^verbatim>\<open>{type, payload}\<close>, the payload holding the job's id and,
  for a completed job, the array \<^verbatim>\<open>output\<close> (absent: \<open>None\<close>).
\<close>

record transform =
  outputPath :: string
  data :: string
  t_args :: string

record worker_payload =
  wp_id :: string
  wp_output :: "transform list option"
  wp_error :: string

record pubsub_message =
  pm_type :: string
  pm_payload :: worker_payload

text \<open>The messages \<^verbatim>\<open>gatsbyProcess.send\<close> is called with.\<close>

datatype payload =
    IdError string string
  | Forwarded worker_payload
  | IdResult string "(string \<times> string) list"

record ipc_message =
  ipc_type :: string
  ipc_payload :: payload

fun payload_id :: "payload \<Rightarrow> string" where
  "payload_id (IdError i e) = i"
| "payload_id (Forwarded p) = wp_id p"
| "payload_id (IdResult i r) = i"

text \<open>
  The value stored in \<^verbatim>\<open>jobsInProcess\<close> is the closure of lines 133-152; it captures
  \<^verbatim>\<open>msg\<close> and \<^verbatim>\<open>file\<close>. The closure given to \<^verbatim>\<open>setTimeout\<close> (lines 168-181) captures the
  same two; the timer holds it with the time it is due.
\<close>

record callback =
  cb_msg :: job
  cb_file :: string

record timer =
  due :: nat
  tm_msg :: job
  tm_file :: string

datatype js_error = ReferenceError string | TypeError string | IOError string

datatype level = Trace | Debug | Warn | Error

text \<open>
  A piece of code that waits at an \<^verbatim>\<open>await\<close>: \<^verbatim>\<open>processImage\<close> at line 132
  (\<^verbatim>\<open>fs.readFile\<close>) and at lines 162/165 (the publish or the save), the stored closure at
  line 136 (the writes of the output files).
\<close>

datatype task =
    ReadFile job string
  | Transport job string
  | Writes callback "transform list"

datatype settled = Fulfilled "byte list" | Rejected js_error

text \<open>
  The object that lines 154-159 serialise. \<^verbatim>\<open>JSON.stringify\<close> and \<^verbatim>\<open>Buffer.from\<close> belong
  to the platform, so the serialiser is a parameter, kept with the two environment
  variables the code reads. It is taken to return: a serialisation that throws (a string
  beyond the platform's limit) would be caught at line 182 like a failed publish.
\<close>

record envelope =
  e_file :: "byte list"
  e_action :: string
  e_topic :: string
  e_id :: string

record config =
  TOPIC :: string
  WORKER_TOPIC :: string
  stringify :: "envelope \<Rightarrow> byte list"

definition bucketName :: "config \<Rightarrow> string" where
  "bucketName cfg = ''event-processing-'' @ WORKER_TOPIC cfg"

subsection \<open>Base64, as \<^verbatim>\<open>Buffer.toString('base64')\<close> gives it\<close>

definition b64_alphabet :: string where
  "b64_alphabet = ''ABCDEFGHIJKLMNOPQRSTUVWXYZabcdefghijklmnopqrstuvwxyz0123456789+/''"

definition b64_char :: "nat \<Rightarrow> char" where
  "b64_char n = b64_alphabet ! (n mod 64)"

fun base64 :: "byte list \<Rightarrow> string" where
  "base64 (a # b # c # rest) =
     (let n = unat a * 65536 + unat b * 256 + unat c
      in b64_char (n div 262144) # b64_char (n div 4096) # b64_char (n div 64) # b64_char n
         # base64 rest)"
| "base64 [a, b] =
     (let n = unat a * 65536 + unat b * 256
      in [b64_char (n div 262144), b64_char (n div 4096), b64_char (n div 64), CHR ''='']) "
| "base64 [a] =
     (let n = unat a * 65536
      in [b64_char (n div 262144), b64_char (n div 4096), CHR ''='', CHR ''=''])"
| "base64 [] = []"

subsection \<open>State and effects\<close>

text \<open>
  The state is the map \<^verbatim>\<open>jobsInProcess\<close> and everything the code has done to the
  outside: the messages sent to Gatsby, the messages published, the objects saved, the
  timers set, the code waiting at an \<^verbatim>\<open>await\<close>, the promises rejected with nobody
  waiting for them (no caller of \<^verbatim>\<open>processImage\<close> or of the stored closure awaits or
  catches; what Node does with such a promise depends on its version, so it is only
  recorded), an exception that left an event listener, the log, the acknowledged worker
  messages, and the clock in milliseconds.
\<close>

record state =
  jobsInProcess :: "string \<rightharpoonup> callback"
  gatsbySent :: "ipc_message list"
  published :: "(string \<times> byte list) list"
  saved :: "(string \<times> string \<times> string) list"
  timers :: "timer list"
  pending :: "task list"
  rejections :: "js_error list"
  uncaught :: "js_error option"
  logs :: "(level \<times> string) list"
  acks :: nat
  now :: nat

datatype effect =
    Log level string
  | Ack
  | MapSet string callback
  | MapDelete string
  | GatsbySend ipc_message
  | Publish string "byte list"
  | Save string string string
  | SetTimeout job string nat
  | Await task
  | Reject js_error
  | Throw js_error

fun apply_effect :: "effect \<Rightarrow> state \<Rightarrow> state" where
  "apply_effect (Log l t) s = s\<lparr>logs := logs s @ [(l, t)]\<rparr>"
| "apply_effect Ack s = s\<lparr>acks := Suc (acks s)\<rparr>"
| "apply_effect (MapSet k cb) s = s\<lparr>jobsInProcess := (jobsInProcess s)(k \<mapsto> cb)\<rparr>"
| "apply_effect (MapDelete k) s = s\<lparr>jobsInProcess := (jobsInProcess s)(k := None)\<rparr>"
| "apply_effect (GatsbySend m) s = s\<lparr>gatsbySent := gatsbySent s @ [m]\<rparr>"
| "apply_effect (Publish t b) s = s\<lparr>published := published s @ [(t, b)]\<rparr>"
| "apply_effect (Save b k c) s = s\<lparr>saved := saved s @ [(b, k, c)]\<rparr>"
| "apply_effect (SetTimeout m f d) s =
     s\<lparr>timers := timers s @ [\<lparr>due = now s + d, tm_msg = m, tm_file = f\<rparr>]\<rparr>"
| "apply_effect (Await t) s = s\<lparr>pending := pending s @ [t]\<rparr>"
| "apply_effect (Reject e) s = s\<lparr>rejections := rejections s @ [e]\<rparr>"
| "apply_effect (Throw e) s = s\<lparr>uncaught := Some e\<rparr>"

fun exec :: "effect list \<Rightarrow> state \<Rightarrow> state" where
  "exec [] s = s"
| "exec (e # es) s = exec es (apply_effect e s)"

subsection \<open>The job types (lines 24-26)\<close>

text \<open>
  \<^verbatim>\<open>JOB_TYPES\<close> is an object literal with the one key \<^verbatim>\<open>IMAGE_PROCESSING\<close>, and
  \<^verbatim>\<open>JOB_TYPES[name]\<close> is a property read: it also finds what the object inherits from
  \<^verbatim>\<open>Object.prototype\<close>. All of those are truthy, so line 98 takes the first branch for
  them and line 99 calls what was found with the payload: the accessor \<^verbatim>\<open>__proto__\<close>
  gives an object, which is not callable; \<^verbatim>\<open>__defineGetter__\<close> and
  \<^verbatim>\<open>__defineSetter__\<close> refuse a missing function argument; the others return without
  an effect.
\<close>

datatype property = ProcessImage | Inherited string

definition Object_prototype :: "string list" where
  "Object_prototype =
     [''constructor'', ''__defineGetter__'', ''__defineSetter__'', ''hasOwnProperty'',
      ''__lookupGetter__'', ''__lookupSetter__'', ''isPrototypeOf'',
      ''propertyIsEnumerable'', ''toString'', ''valueOf'', ''__proto__'',
      ''toLocaleString'']"

definition JOB_TYPES :: "string \<Rightarrow> property option" where
  "JOB_TYPES n =
     (if n = ''IMAGE_PROCESSING'' then Some ProcessImage
      else if n \<in> set Object_prototype then Some (Inherited n)
      else None)"

definition call_inherited :: "string \<Rightarrow> effect list" where
  "call_inherited n =
     (if n = ''__proto__'' then [Throw (TypeError ''JOB_TYPES[msg.payload.name] is not a function'')]
      else if n = ''__defineGetter__'' \<or> n = ''__defineSetter__''
        then [Throw (TypeError ''Object.prototype.__defineGetter__: Expecting function'')]
      else [])"

subsection \<open>\<^verbatim>\<open>processImage\<close> (lines 118-185)\<close>

text \<open>
  Lines 119-132, up to the first \<^verbatim>\<open>await\<close>. An empty array is truthy and its length is
  not above 1, so it passes line 119, and line 131 reads \<^verbatim>\<open>.path\<close> of \<^verbatim>\<open>undefined\<close>:
  the promise of the \<^verbatim>\<open>async\<close> function is rejected with a \<^verbatim>\<open>TypeError\<close>.
\<close>

definition wrong_number_of_input_paths :: "job \<Rightarrow> effect list" where
  "wrong_number_of_input_paths msg =
     [Log Error ''Wrong number of input paths in msg: '',
      GatsbySend \<lparr>ipc_type = JOB_FAILED,
                  ipc_payload = IdError (job_id msg) ''Wrong number of input paths''\<rparr>]"

definition processImage :: "job \<Rightarrow> effect list" where
  "processImage msg =
     (case inputPaths msg of
        None \<Rightarrow> wrong_number_of_input_paths msg
      | Some ps \<Rightarrow>
          if length ps > 1 then wrong_number_of_input_paths msg
          else (case ps of
                  [] \<Rightarrow> [Reject (TypeError ''Cannot read property path of undefined'')]
                | p # _ \<Rightarrow> [Await (ReadFile msg (path p))]))"

text \<open>
  Lines 132-166, from the result of \<^verbatim>\<open>fs.readFile\<close> to the \<^verbatim>\<open>await\<close> of the publish or
  the save. A failed read rejects the promise of \<^verbatim>\<open>processImage\<close> (line 132 is outside
  the \<^verbatim>\<open>try\<close>). The closure is stored at line 133, before anything is sent.
\<close>

definition processImage_after_readFile ::
  "config \<Rightarrow> job \<Rightarrow> string \<Rightarrow> settled \<Rightarrow> effect list" where
  "processImage_after_readFile cfg msg file r =
     (case r of
        Rejected e \<Rightarrow> [Reject e]
      | Fulfilled d \<Rightarrow>
          MapSet (job_id msg) \<lparr>cb_msg = msg, cb_file = file\<rparr> #
          (let pubsubMsg = stringify cfg \<lparr>e_file = d, e_action = args msg,
                                         e_topic = TOPIC cfg, e_id = job_id msg\<rparr>
           in if length pubsubMsg < MAX_PUB_SUB_SIZE
              then [Log Trace ''Publishing to message queue'',
                    Publish (WORKER_TOPIC cfg) pubsubMsg,
                    Await (Transport msg file)]
              else [Log Trace ''Publishing to storage queue'',
                    Save (bucketName cfg) (''event-'' @ job_id msg) (base64 pubsubMsg),
                    Await (Transport msg file)]))"

text \<open>
  Lines 168-184, from the result of the publish or the save: the timer is set when it
  succeeded, and the \<^verbatim>\<open>catch\<close> of line 182 only logs when it failed.
\<close>

definition processImage_after_transport :: "job \<Rightarrow> string \<Rightarrow> settled \<Rightarrow> effect list" where
  "processImage_after_transport msg file r =
     (case r of
        Fulfilled _ \<Rightarrow> [SetTimeout msg file MAX_JOB_TIME]
      | Rejected e \<Rightarrow> [Log Error ''Error during publish: ''])"

text \<open>The closure given to \<^verbatim>\<open>setTimeout\<close> (lines 168-181), run when the timer fires.\<close>

definition timeout_callback :: "timer \<Rightarrow> state \<Rightarrow> effect list" where
  "timeout_callback t s =
     Log Trace ''Checking timeout for'' #
     (if jobsInProcess s (job_id (tm_msg t)) \<noteq> None
      then [Log Error ''Timing out job for file'',
            MapDelete (job_id (tm_msg t)),
            GatsbySend \<lparr>ipc_type = JOB_FAILED,
                        ipc_payload = IdError (job_id (tm_msg t))
                          (''File failed to process with timeout '' @ tm_file t)\<rparr>]
      else [])"

subsection \<open>The stored closure (lines 133-152)\<close>

text \<open>
  Called with the worker's payload. \<^verbatim>\<open>result.output.map\<close> throws inside the \<^verbatim>\<open>try\<close> when
  \<^verbatim>\<open>output\<close> is absent; otherwise the writes are started and awaited together. When all
  of them succeeded, \<^verbatim>\<open>JOB_COMPLETED\<close> is sent and then the entry is deleted; when one
  failed, the \<^verbatim>\<open>catch\<close> of line 149 logs and nothing else happens. The content of the
  files is not part of the model.
\<close>

definition callback_call :: "callback \<Rightarrow> worker_payload \<Rightarrow> effect list" where
  "callback_call cb result =
     Log Trace ''Finalizing for'' #
     (case wp_output result of
        None \<Rightarrow> [Log Error ''Failed to execute callback'']
      | Some out \<Rightarrow> [Await (Writes cb out)])"

definition callback_after_writes :: "callback \<Rightarrow> transform list \<Rightarrow> settled \<Rightarrow> effect list" where
  "callback_after_writes cb out r =
     (case r of
        Fulfilled _ \<Rightarrow>
          [GatsbySend \<lparr>ipc_type = JOB_COMPLETED,
                       ipc_payload = IdResult (job_id (cb_msg cb))
                         (map (\<lambda>t. (outputPath t, t_args t)) out)\<rparr>,
           MapDelete (job_id (cb_msg cb))]
      | Rejected e \<Rightarrow> [Log Error ''Failed to execute callback''])"

subsection \<open>The two listeners\<close>

text \<open>
  \<^verbatim>\<open>pubsubMessageHandler\<close> (lines 48-72), on a worker's message that has been decoded.
\<close>

definition pubsubMessageHandler :: "pubsub_message \<Rightarrow> state \<Rightarrow> effect list" where
  "pubsubMessageHandler msg s =
     Ack # Log Trace ''Got worker message'' #
     (if pm_type msg = JOB_COMPLETED then
        (case jobsInProcess s (wp_id (pm_payload msg)) of
           Some cb \<Rightarrow> callback_call cb (pm_payload msg)
         | None \<Rightarrow> [])
      else if pm_type msg = JOB_FAILED then
        (if jobsInProcess s (wp_id (pm_payload msg)) \<noteq> None
         then [MapDelete (wp_id (pm_payload msg)),
               GatsbySend \<lparr>ipc_type = JOB_FAILED, ipc_payload = Forwarded (pm_payload msg)\<rparr>]
         else [])
      else [Log Error ''Unkown worker message: ''])"

text \<open>
  The listener of \<^verbatim>\<open>gatsbyProcess.on('message')\<close> (lines 94-116). Line 102 names
  \<^verbatim>\<open>JOB_NOT_WHITELISTED\<close>, which no line of the file declares (it is not a key of
  \<^verbatim>\<open>MESSAGE_TYPES\<close> either): evaluating the argument of \<^verbatim>\<open>send\<close> throws a
  \<^verbatim>\<open>ReferenceError\<close>, before \<^verbatim>\<open>send\<close> is called, and nothing catches it.
\<close>

definition gatsbyProcess_on_message :: "gatsby_message \<Rightarrow> effect list" where
  "gatsbyProcess_on_message msg =
     Log Trace ''Got gatsby message'' #
     (if gm_type msg = JOB_CREATED then
        (case JOB_TYPES (job_name (gm_payload msg)) of
           Some ProcessImage \<Rightarrow> processImage (gm_payload msg)
         | Some (Inherited n) \<Rightarrow> call_inherited n
         | None \<Rightarrow> [Throw (ReferenceError ''JOB_NOT_WHITELISTED is not defined'')])
      else if gm_type msg = LOG_ACTION then []
      else [Log Warn ''Ignoring message: ''])"

subsection \<open>The event loop\<close>

text \<open>
  One event is one turn of the loop: a message from Gatsby, a message from a worker, a
  timer that fires, the operation some waiting code awaits being settled, or time
  passing. A timer or a waiting task is named by its position in the list. A timer can
  fire only when it is due; an event that cannot happen changes nothing. Once an
  exception has left a listener, the process has ended and nothing runs.
\<close>

datatype event =
    FromGatsby gatsby_message
  | FromWorker pubsub_message
  | TimerFires nat
  | Settles nat settled
  | Advance nat

fun resume :: "config \<Rightarrow> task \<Rightarrow> settled \<Rightarrow> effect list" where
  "resume cfg (ReadFile msg file) r = processImage_after_readFile cfg msg file r"
| "resume cfg (Transport msg file) r = processImage_after_transport msg file r"
| "resume cfg (Writes cb out) r = callback_after_writes cb out r"

definition without :: "nat \<Rightarrow> 'a list \<Rightarrow> 'a list" where
  "without k xs = take k xs @ drop (Suc k) xs"

fun enabled :: "event \<Rightarrow> state \<Rightarrow> bool" where
  "enabled (TimerFires k) s = (k < length (timers s) \<and> due (timers s ! k) \<le> now s)"
| "enabled (Settles k r) s = (k < length (pending s))"
| "enabled e s = True"

text \<open>What the loop does before it calls the code: the timer or the task leaves its list.\<close>

fun dequeue :: "event \<Rightarrow> state \<Rightarrow> state" where
  "dequeue (TimerFires k) s = s\<lparr>timers := without k (timers s)\<rparr>"
| "dequeue (Settles k r) s = s\<lparr>pending := without k (pending s)\<rparr>"
| "dequeue (Advance d) s = s\<lparr>now := now s + d\<rparr>"
| "dequeue e s = s"

text \<open>The effects of the code the event runs, in the state the event finds.\<close>

fun listener :: "config \<Rightarrow> event \<Rightarrow> state \<Rightarrow> effect list" where
  "listener cfg (FromGatsby msg) s = gatsbyProcess_on_message msg"
| "listener cfg (FromWorker msg) s = pubsubMessageHandler msg s"
| "listener cfg (TimerFires k) s = timeout_callback (timers s ! k) s"
| "listener cfg (Settles k r) s = resume cfg (pending s ! k) r"
| "listener cfg (Advance d) s = []"

definition step :: "config \<Rightarrow> event \<Rightarrow> state \<Rightarrow> state" where
  "step cfg e s =
     (if uncaught s \<noteq> None \<or> \<not> enabled e s then s
      else exec (listener cfg e s) (dequeue e s))"

fun run :: "config \<Rightarrow> event list \<Rightarrow> state \<Rightarrow> state" where
  "run cfg [] s = s"
| "run cfg (e # es) s = run cfg es (step cfg e s)"

definition init :: state where
  "init = \<lparr>jobsInProcess = Map.empty, gatsbySent = [], published = [], saved = [],
           timers = [], pending = [], rejections = [], uncaught = None, logs = [],
           acks = 0, now = 0\<rparr>"

subsection \<open>What is observed\<close>

text \<open>The messages sent to Gatsby so far that are about the job \<open>i\<close>.\<close>

definition outcomes_for :: "string \<Rightarrow> state \<Rightarrow> ipc_message list" where
  "outcomes_for i s = filter (\<lambda>m. payload_id (ipc_payload m) = i) (gatsbySent s)"

text \<open>
  Running a list of effects from a state, every \<^verbatim>\<open>JOB_FAILED\<close> that is sent is sent at a
  moment when \<^verbatim>\<open>jobsInProcess\<close> has no entry for the job it is about.
\<close>

fun failed_only_when_absent :: "effect list \<Rightarrow> state \<Rightarrow> bool" where
  "failed_only_when_absent [] s = True"
| "failed_only_when_absent (GatsbySend m # es) s =
     ((ipc_type m \<noteq> JOB_FAILED \<or> jobsInProcess s (payload_id (ipc_payload m)) = None)
      \<and> failed_only_when_absent es (apply_effect (GatsbySend m) s))"
| "failed_only_when_absent (e # es) s = failed_only_when_absent es (apply_effect e s)"


text \<open>The job a piece of waiting code belongs to.\<close>

fun task_id :: "task \<Rightarrow> string" where
  "task_id (ReadFile msg file) = job_id msg"
| "task_id (Transport msg file) = job_id msg"
| "task_id (Writes cb out) = job_id (cb_msg cb)"

text \<open>The event is a request to create a job with the id \<open>i\<close>.\<close>

fun submits :: "string \<Rightarrow> event \<Rightarrow> bool" where
  "submits i (FromGatsby msg) = (gm_type msg = JOB_CREATED \<and> job_id (gm_payload msg) = i)"
| "submits i e = False"

text \<open>
  The job \<open>i\<close> is over: it has no entry in \<^verbatim>\<open>jobsInProcess\<close> and no code of it waits.
\<close>

definition over :: "string \<Rightarrow> state \<Rightarrow> bool" where
  "over i s = (jobsInProcess s i = None \<and> i \<notin> set (map task_id (pending s)))"

text \<open>
  Every closure in \<^verbatim>\<open>jobsInProcess\<close> is stored under the id of the message it captured
  (line 133 stores under \<^verbatim>\<open>msg.id\<close>, line 148 deletes \<^verbatim>\<open>msg.id\<close>).
\<close>

definition keys_match :: "state \<Rightarrow> bool" where
  "keys_match s = (\<forall>k cb. jobsInProcess s k = Some cb \<longrightarrow> job_id (cb_msg cb) = k)"

subsection \<open>An example run\<close>

text \<open>
  A configuration whose serialiser gives the bytes of the file, one image job, and the
  three events that dispatch it: the request, the file read, the publish acknowledged.
\<close>

definition example_config :: config where
  "example_config =
     \<lparr>TOPIC = ''replies'', WORKER_TOPIC = ''workers'', stringify = (\<lambda>e. e_file e)\<rparr>"

definition example_job :: job where
  "example_job =
     \<lparr>job_name = ''IMAGE_PROCESSING'', job_id = ''a1'',
      inputPaths = Some [\<lparr>path = ''img/a.png''\<rparr>], outputDir = ''public/static'',
      args = ''{}''\<rparr>"

definition example_dispatch :: "event list" where
  "example_dispatch =
     [FromGatsby \<lparr>gm_type = JOB_CREATED, gm_payload = example_job\<rparr>,
      Settles 0 (Fulfilled [77, 97, 110]),
      Settles 0 (Fulfilled [])]"

definition example_completed :: pubsub_message where
  "example_completed =
     \<lparr>pm_type = JOB_COMPLETED,
      pm_payload = \<lparr>wp_id = ''a1'',
                    wp_output = Some [\<lparr>outputPath = ''a-100.png'', data = ''TWFu'',
                                       t_args = ''{}''\<rparr>],
                    wp_error = []\<rparr>\<rparr>"

definition example_failed :: pubsub_message where
  "example_failed =
     \<lparr>pm_type = JOB_FAILED,
      pm_payload = \<lparr>wp_id = ''a1'', wp_output = None, wp_error = ''sharp: bad input''\<rparr>\<rparr>"

section \<open>Properties\<close>

lemmas message_types = LOG_ACTION_def JOB_CREATED_def JOB_COMPLETED_def JOB_FAILED_def

lemmas example_defs = example_config_def example_job_def example_dispatch_def
  example_completed_def example_failed_def

lemmas code_defs = gatsbyProcess_on_message_def JOB_TYPES_def processImage_def
  processImage_after_readFile_def processImage_after_transport_def MAX_PUB_SUB_SIZE_def
  MAX_JOB_TIME_def pubsubMessageHandler_def callback_call_def callback_after_writes_def
  timeout_callback_def wrong_number_of_input_paths_def bucketName_def

lemma run_append: "run cfg (es @ fs) s = run cfg fs (run cfg es s)"
  by (induction es arbitrary: s) simp_all


subsection \<open>Invariants of the event loop\<close>

text \<open>
  Every state the loop reaches keeps each closure under the id it captured; and once a
  job is over, no event but a new request with the same id sends anything about it or
  gives it an entry again.
\<close>

lemma keys_match_init: "keys_match init"
  by (simp add: keys_match_def init_def)

lemma keys_match_step: "keys_match s \<Longrightarrow> keys_match (step cfg e s)"
proof (cases e)
  case (Settles k r)
  assume "keys_match s"
  then show ?thesis using Settles
    by (cases "pending s ! k"; cases r)
       (auto simp: keys_match_def step_def processImage_after_readFile_def
          processImage_after_transport_def callback_after_writes_def Let_def)
qed (auto simp: keys_match_def step_def gatsbyProcess_on_message_def processImage_def
       wrong_number_of_input_paths_def call_inherited_def pubsubMessageHandler_def
       callback_call_def timeout_callback_def
       split: option.splits property.splits list.splits)

lemma keys_match_run: "keys_match s \<Longrightarrow> keys_match (run cfg es s)"
  by (induction es arbitrary: s) (simp_all add: keys_match_step)

lemma set_without: "set (without k xs) \<subseteq> set xs"
  unfolding without_def using set_take_subset[of k xs] set_drop_subset[of "Suc k" xs] by auto

lemma task_id_without:
  "i \<notin> task_id ` set xs \<Longrightarrow> i \<notin> task_id ` set (without k xs)"
  using set_without[of k xs] by auto

lemma over_FromGatsby:
  assumes "over i s" and "\<not> submits i (FromGatsby m)"
  shows "over i (exec (gatsbyProcess_on_message m) s)
       \<and> outcomes_for i (exec (gatsbyProcess_on_message m) s) = outcomes_for i s"
  using assms
  by (auto simp: over_def outcomes_for_def gatsbyProcess_on_message_def processImage_def
       wrong_number_of_input_paths_def call_inherited_def
       split: option.splits property.splits list.splits)

lemma over_FromWorker:
  assumes "keys_match s" and "over i s"
  shows "over i (exec (pubsubMessageHandler w s) s)
       \<and> outcomes_for i (exec (pubsubMessageHandler w s) s) = outcomes_for i s"
  using assms
  by (auto simp: over_def keys_match_def outcomes_for_def pubsubMessageHandler_def
       callback_call_def split: option.splits)

lemma over_TimerFires:
  assumes "over i s"
  shows "over i (exec (timeout_callback t s) (dequeue (TimerFires k) s))
       \<and> outcomes_for i (exec (timeout_callback t s) (dequeue (TimerFires k) s))
           = outcomes_for i s"
  using assms
  by (auto simp: over_def outcomes_for_def timeout_callback_def)

lemma over_Settles:
  assumes "over i s" and "k < length (pending s)"
  shows "over i (exec (resume cfg (pending s ! k) r) (dequeue (Settles k r) s))
       \<and> outcomes_for i (exec (resume cfg (pending s ! k) r) (dequeue (Settles k r) s))
           = outcomes_for i s"
proof -
  have other: "task_id (pending s ! k) \<noteq> i"
    using assms by (auto simp: over_def)
  have rest: "i \<notin> task_id ` set (without k (pending s))"
    using assms(1) task_id_without[of i "pending s" k] by (simp add: over_def)
  show ?thesis
    using other rest assms(1)
    by (cases "pending s ! k"; cases r)
       (auto simp: over_def outcomes_for_def processImage_after_readFile_def
          processImage_after_transport_def callback_after_writes_def Let_def)
qed

lemma over_step:
  assumes "keys_match s" and "over i s" and "\<not> submits i e"
  shows "over i (step cfg e s) \<and> outcomes_for i (step cfg e s) = outcomes_for i s"
proof (cases "uncaught s \<noteq> None \<or> \<not> enabled e s")
  case True
  then show ?thesis using assms(2) by (simp add: step_def)
next
  case False
  then have st: "step cfg e s = exec (listener cfg e s) (dequeue e s)"
    by (simp add: step_def)
  show ?thesis
  proof (cases e)
    case (FromGatsby m)
    then show ?thesis using st over_FromGatsby[of i s m] assms by simp
  next
    case (FromWorker w)
    then show ?thesis using st over_FromWorker[of s i w] assms by simp
  next
    case (TimerFires k)
    then show ?thesis using st over_TimerFires[of i s "timers s ! k" k] assms by simp
  next
    case (Settles k r)
    then show ?thesis using st False over_Settles[of i s k cfg r] assms by simp
  next
    case (Advance d)
    then show ?thesis using st assms(2) by (simp add: over_def outcomes_for_def)
  qed
qed

lemma over_run:
  assumes "keys_match s" and "over i s" and "list_all (\<lambda>e. \<not> submits i e) es"
  shows "over i (run cfg es s) \<and> outcomes_for i (run cfg es s) = outcomes_for i s"
  using assms
proof (induction es arbitrary: s)
  case Nil
  then show ?case by simp
next
  case (Cons e es)
  have one: "over i (step cfg e s)" "outcomes_for i (step cfg e s) = outcomes_for i s"
    using over_step[of s i e cfg] Cons.prems by simp_all
  have "over i (run cfg es (step cfg e s))
      \<and> outcomes_for i (run cfg es (step cfg e s)) = outcomes_for i (step cfg e s)"
    using Cons.IH[of "step cfg e s"] keys_match_step[OF Cons.prems(1)] one(1) Cons.prems(3)
    by simp
  then show ?case using one(2) by simp
qed

subsection \<open>Single turns of the loop\<close>

text \<open>The state after the three events that dispatch the example job.\<close>

lemma example_dispatched:
  "run example_config example_dispatch init =
     \<lparr>jobsInProcess = [''a1'' \<mapsto> \<lparr>cb_msg = example_job, cb_file = ''img/a.png''\<rparr>],
       gatsbySent = [], published = [(''workers'', [77, 97, 110])], saved = [],
       timers = [\<lparr>due = 60000, tm_msg = example_job, tm_file = ''img/a.png''\<rparr>],
       pending = [], rejections = [], uncaught = None,
       logs = [(Trace, ''Got gatsby message''), (Trace, ''Publishing to message queue'')],
       acks = 0, now = 0\<rparr>"
  by (simp add: example_defs code_defs step_def without_def init_def message_types)

lemma timer_set_after_send:
  "exec (processImage_after_transport msg file (Fulfilled x)) s
     = s\<lparr>timers := timers s @ [\<lparr>due = now s + 60000, tm_msg = msg, tm_file = file\<rparr>]\<rparr>"
  by (simp add: processImage_after_transport_def MAX_JOB_TIME_def)

lemma timer_fires_with_entry:
  assumes "k < length (timers s)" and "uncaught s = None"
      and "jobsInProcess s (job_id (tm_msg (timers s ! k))) \<noteq> None"
      and "due (timers s ! k) \<le> now s"
  shows "step cfg (TimerFires k) s =
          s\<lparr>jobsInProcess := (jobsInProcess s)(job_id (tm_msg (timers s ! k)) := None),
             gatsbySent := gatsbySent s @
               [\<lparr>ipc_type = JOB_FAILED,
                 ipc_payload = IdError (job_id (tm_msg (timers s ! k)))
                    (''File failed to process with timeout '' @ tm_file (timers s ! k))\<rparr>],
             timers := without k (timers s),
             logs := logs s @ [(Trace, ''Checking timeout for''),
                               (Error, ''Timing out job for file'')]\<rparr>"
  using assms by (simp add: step_def timeout_callback_def)




text \<open>
  The order of the effects matters to \<open>failed_only_when_absent\<close>: deleting and then sending
  is accepted in every state, sending and then deleting only when there was no entry.
\<close>

lemma failed_order_matters:
  "failed_only_when_absent
     [MapDelete i, GatsbySend \<lparr>ipc_type = JOB_FAILED, ipc_payload = IdError i e\<rparr>] s
   \<and> (failed_only_when_absent
     [GatsbySend \<lparr>ipc_type = JOB_FAILED, ipc_payload = IdError i e\<rparr>, MapDelete i] s
       = (jobsInProcess s i = None))"
  by simp





subsection \<open>A worker's response before the deadline\<close>




text \<open>
  The restriction to writes that have succeeded is needed in one more way: while the
  writes are under way the entry is still there, so a duplicate \<^verbatim>\<open>JOB_COMPLETED\<close> that
  arrives in between calls the closure a second time.
\<close>

lemma duplicate_while_finalizing:
  "gatsbySent
     (run example_config
        (example_dispatch @
         [FromWorker example_completed, FromWorker example_completed,
          Settles 0 (Fulfilled []), Settles 0 (Fulfilled [])]) init)
   = [\<lparr>ipc_type = JOB_COMPLETED, ipc_payload = IdResult ''a1'' [(''a-100.png'', ''{}'')]\<rparr>,
      \<lparr>ipc_type = JOB_COMPLETED, ipc_payload = IdResult ''a1'' [(''a-100.png'', ''{}'')]\<rparr>]"
  by (simp add: run_append example_dispatched example_completed_def example_job_def
        code_defs step_def without_def message_types)

subsection \<open>The number of input paths\<close>

text \<open>
  C2, at the input on which the code departs from it. For an image job whose
  \<^verbatim>\<open>inputPaths\<close> is the empty array, the listener sends nothing to Gatsby: line 119 lets
  the array pass, line 131 throws, and the promise of \<^verbatim>\<open>processImage\<close> is rejected with a
  \<^verbatim>\<open>TypeError\<close>. Only the log and the list of rejected promises change.
\<close>

theorem empty_inputPaths_rejects:
  "exec (gatsbyProcess_on_message
           \<lparr>gm_type = JOB_CREATED,
            gm_payload = msg\<lparr>job_name := ''IMAGE_PROCESSING'', inputPaths := Some []\<rparr>\<rparr>) s
   = s\<lparr>rejections := rejections s @ [TypeError ''Cannot read property path of undefined''],
        logs := logs s @ [(Trace, ''Got gatsby message'')]\<rparr>"
  by (simp add: gatsbyProcess_on_message_def JOB_TYPES_def processImage_def)

text \<open>With two or more input paths the request is refused as the claim says.\<close>

lemma too_many_inputPaths_reports_failure:
  assumes "gm_type m = JOB_CREATED"
      and "job_name (gm_payload m) = ''IMAGE_PROCESSING''"
      and "inputPaths (gm_payload m) = Some ps" and "length ps > 1"
  shows "exec (gatsbyProcess_on_message m) s =
           s\<lparr>gatsbySent := gatsbySent s @
                 [\<lparr>ipc_type = JOB_FAILED,
                   ipc_payload = IdError (job_id (gm_payload m)) ''Wrong number of input paths''\<rparr>],
              logs := logs s @ [(Trace, ''Got gatsby message''),
                                (Error, ''Wrong number of input paths in msg: '')]\<rparr>"
  using assms
  by (simp add: gatsbyProcess_on_message_def JOB_TYPES_def processImage_def
      wrong_number_of_input_paths_def)

subsection \<open>A job type that is not known\<close>

text \<open>
  C3, at an input on which the code departs from it. For a job of the type
  \<^verbatim>\<open>SVG_TRACING\<close> the listener sends nothing to Gatsby: the \<^verbatim>\<open>ReferenceError\<close> of line 102
  leaves the listener. Only the log and the uncaught exception change.
\<close>

theorem unknown_job_type_throws:
  "exec (gatsbyProcess_on_message
           \<lparr>gm_type = JOB_CREATED, gm_payload = msg\<lparr>job_name := ''SVG_TRACING''\<rparr>\<rparr>) s
   = s\<lparr>uncaught := Some (ReferenceError ''JOB_NOT_WHITELISTED is not defined''),
        logs := logs s @ [(Trace, ''Got gatsby message'')]\<rparr>"
  by (simp add: gatsbyProcess_on_message_def JOB_TYPES_def Object_prototype_def)

text \<open>
  The same holds for every name that \<^verbatim>\<open>JOB_TYPES\<close> does not have. A name that
  \<^verbatim>\<open>JOB_TYPES\<close> inherits, such as \<^verbatim>\<open>toString\<close>, is dropped with no message at all.
\<close>

lemma unknown_job_type_throws_always:
  assumes "gm_type m = JOB_CREATED" and "JOB_TYPES (job_name (gm_payload m)) = None"
  shows "exec (gatsbyProcess_on_message m) s
     = s\<lparr>uncaught := Some (ReferenceError ''JOB_NOT_WHITELISTED is not defined''),
          logs := logs s @ [(Trace, ''Got gatsby message'')]\<rparr>"
  using assms by (simp add: gatsbyProcess_on_message_def)

lemma inherited_name_is_dropped:
  "exec (gatsbyProcess_on_message
           \<lparr>gm_type = JOB_CREATED, gm_payload = msg\<lparr>job_name := ''toString''\<rparr>\<rparr>) s
   = s\<lparr>logs := logs s @ [(Trace, ''Got gatsby message'')]\<rparr>"
  by (simp add: gatsbyProcess_on_message_def JOB_TYPES_def Object_prototype_def
        call_inherited_def)

subsection \<open>A publish or a save that fails\<close>

text \<open>
  C4, as amended. The first thing \<^verbatim>\<open>processImage\<close> does with the content of the file is
  to store the closure in \<^verbatim>\<open>jobsInProcess\<close>, before it publishes or saves. When the
  publish or the save then fails, the failure is logged, no timer is set, nothing is
  published or saved again, and no code is left waiting.
\<close>

theorem send_failure_is_only_logged:
  "hd (processImage_after_readFile cfg msg file (Fulfilled d))
     = MapSet (job_id msg) \<lparr>cb_msg = msg, cb_file = file\<rparr>
   \<and> (let s' = exec (processImage_after_transport msg file (Rejected e)) s
      in logs s' = logs s @ [(Error, ''Error during publish: '')]
       \<and> timers s' = timers s \<and> published s' = published s \<and> saved s' = saved s
       \<and> pending s' = pending s)"
  by (simp add: processImage_after_readFile_def processImage_after_transport_def)

theorem send_failure_counterexample:
  "gatsbySent
     (run example_config
        [FromGatsby \<lparr>gm_type = JOB_CREATED, gm_payload = example_job\<rparr>,
         Settles 0 (Fulfilled [77, 97, 110]),
         Settles 0 (Rejected (IOError ''publish failed''))] init)
     = []
   \<and> jobsInProcess
       (run example_config
          [FromGatsby \<lparr>gm_type = JOB_CREATED, gm_payload = example_job\<rparr>,
           Settles 0 (Fulfilled [77, 97, 110]),
           Settles 0 (Rejected (IOError ''publish failed''))] init) ''a1''
     = Some \<lparr>cb_msg = example_job, cb_file = ''img/a.png''\<rparr>"
  by (simp add: example_defs code_defs step_def without_def init_def message_types)

subsection \<open>Writes of the output files that fail\<close>




subsection \<open>No response before the deadline\<close>

text \<open>
  C6. The timer that \<^verbatim>\<open>processImage\<close> sets after a successful send is due 60,000 ms
  later. In a state the loop can reach, let a timer's job have its entry and let no code
  of the job wait (no response is being handled). Before the timer is due its firing
  changes nothing. When it is due, its firing sends exactly one \<^verbatim>\<open>JOB_FAILED\<close> with the
  job's id and the error \<^verbatim>\<open>File failed to process with timeout <file>\<close> and removes the
  entry; after that, no sequence of events without a new request for the same id
  (worker responses in particular) adds a message about the job or gives it an entry.
\<close>

theorem timeout_reports_one_failure:
  assumes "s = run cfg es0 init" and "uncaught s = None"
      and "k < length (timers s)"
      and "jobsInProcess s (job_id (tm_msg (timers s ! k))) \<noteq> None"
      and "job_id (tm_msg (timers s ! k)) \<notin> set (map task_id (pending s))"
  shows "let t = timers s ! k; i = job_id (tm_msg t); s' = step cfg (TimerFires k) s
         in timers (exec (processImage_after_transport msg file (Fulfilled x)) s0)
              = timers s0 @ [\<lparr>due = now s0 + 60000, tm_msg = msg, tm_file = file\<rparr>]
          \<and> (now s < due t \<longrightarrow> s' = s)
          \<and> (due t \<le> now s \<longrightarrow>
               gatsbySent s' = gatsbySent s @
                 [\<lparr>ipc_type = JOB_FAILED,
                   ipc_payload = IdError i (''File failed to process with timeout '' @ tm_file t)\<rparr>]
             \<and> jobsInProcess s' = (jobsInProcess s)(i := None)
             \<and> (\<forall>es. list_all (\<lambda>e. \<not> submits i e) es \<longrightarrow>
                    outcomes_for i (run cfg es s') = outcomes_for i s'
                  \<and> jobsInProcess (run cfg es s') i = None))"
proof -
  define t where "t = timers s ! k"
  define i where "i = job_id (tm_msg t)"
  define s' where "s' = step cfg (TimerFires k) s"
  have km: "keys_match s'"
    unfolding s'_def assms(1) by (intro keys_match_step keys_match_run keys_match_init)
  have early: "now s < due t \<Longrightarrow> s' = s"
    by (simp add: s'_def t_def step_def)
  have late: "gatsbySent s' = gatsbySent s @
                 [\<lparr>ipc_type = JOB_FAILED,
                   ipc_payload = IdError i (''File failed to process with timeout '' @ tm_file t)\<rparr>]
             \<and> jobsInProcess s' = (jobsInProcess s)(i := None)
             \<and> (\<forall>es. list_all (\<lambda>e. \<not> submits i e) es \<longrightarrow>
                    outcomes_for i (run cfg es s') = outcomes_for i s'
                  \<and> jobsInProcess (run cfg es s') i = None)"
    if due: "due t \<le> now s"
  proof -
    have eq: "s' = s\<lparr>jobsInProcess := (jobsInProcess s)(i := None),
             gatsbySent := gatsbySent s @
               [\<lparr>ipc_type = JOB_FAILED,
                 ipc_payload = IdError i (''File failed to process with timeout '' @ tm_file t)\<rparr>],
             timers := without k (timers s),
             logs := logs s @ [(Trace, ''Checking timeout for''),
                               (Error, ''Timing out job for file'')]\<rparr>"
      unfolding s'_def i_def t_def
      using assms(2-4) due by (intro timer_fires_with_entry) (simp_all add: t_def)
    have ov: "over i s'"
      using assms(5) by (simp add: eq over_def i_def t_def)
    have "\<forall>es. list_all (\<lambda>e. \<not> submits i e) es \<longrightarrow>
                    outcomes_for i (run cfg es s') = outcomes_for i s'
                  \<and> jobsInProcess (run cfg es s') i = None"
      using over_run[OF km ov, of _ cfg] by (simp add: over_def)
    then show ?thesis by (simp add: eq)
  qed
  show ?thesis
    unfolding Let_def t_def[symmetric] i_def[symmetric] s'_def[symmetric]
    using early late by (simp add: timer_set_after_send)
qed

theorem timeout_reports_one_failure_witness:
  "gatsbySent (step example_config (TimerFires 0)
                 (run example_config (example_dispatch @ [Advance 60000]) init))
     = [\<lparr>ipc_type = JOB_FAILED,
         ipc_payload = IdError ''a1'' ''File failed to process with timeout img/a.png''\<rparr>]
   \<and> outcomes_for ''a1''
       (run example_config [FromWorker example_completed, FromWorker example_failed, TimerFires 0]
          (step example_config (TimerFires 0)
             (run example_config (example_dispatch @ [Advance 60000]) init)))
     = [\<lparr>ipc_type = JOB_FAILED,
         ipc_payload = IdError ''a1'' ''File failed to process with timeout img/a.png''\<rparr>]"
proof -
  define s where "s = run example_config (example_dispatch @ [Advance 60000]) init"
  have val: "s = \<lparr>jobsInProcess = [''a1'' \<mapsto> \<lparr>cb_msg = example_job, cb_file = ''img/a.png''\<rparr>],
       gatsbySent = [], published = [(''workers'', [77, 97, 110])], saved = [],
       timers = [\<lparr>due = 60000, tm_msg = example_job, tm_file = ''img/a.png''\<rparr>],
       pending = [], rejections = [], uncaught = None,
       logs = [(Trace, ''Got gatsby message''), (Trace, ''Publishing to message queue'')],
       acks = 0, now = 60000\<rparr>"
    by (simp add: s_def example_defs code_defs step_def without_def init_def message_types)
  have h1: "s = run example_config (example_dispatch @ [Advance 60000]) init" by (fact s_def)
  have h2: "uncaught s = None" by (simp add: val)
  have h3: "0 < length (timers s)" by (simp add: val)
  have h4: "jobsInProcess s (job_id (tm_msg (timers s ! 0))) \<noteq> None"
    by (simp add: val example_job_def)
  have h5: "job_id (tm_msg (timers s ! 0)) \<notin> set (map task_id (pending s))"
    by (simp add: val)
  have sub: "list_all (\<lambda>e. \<not> submits ''a1'' e)
               [FromWorker example_completed, FromWorker example_failed, TimerFires 0]"
    by simp
  have due: "due (timers s ! 0) \<le> now s" by (simp add: val)
  have i: "job_id (tm_msg (timers s ! 0)) = ''a1''" by (simp add: val example_job_def)
  note T = timeout_reports_one_failure
             [OF h1 h2 h3 h4 h5, of example_job "''img/a.png''" "[]" init, unfolded Let_def i]
  from T due
  have sent: "gatsbySent (step example_config (TimerFires 0) s) = gatsbySent s @
                 [\<lparr>ipc_type = JOB_FAILED,
                   ipc_payload = IdError ''a1''
                     (''File failed to process with timeout '' @ tm_file (timers s ! 0))\<rparr>]"
    and quiet: "\<forall>es. list_all (\<lambda>e. \<not> submits ''a1'' e) es \<longrightarrow>
                 outcomes_for ''a1'' (run example_config es (step example_config (TimerFires 0) s))
                   = outcomes_for ''a1'' (step example_config (TimerFires 0) s)"
    by simp_all
  from quiet sub
  have "outcomes_for ''a1''
          (run example_config [FromWorker example_completed, FromWorker example_failed, TimerFires 0]
             (step example_config (TimerFires 0) s))
        = outcomes_for ''a1'' (step example_config (TimerFires 0) s)"
    by blast
  with sent show ?thesis
    unfolding s_def[symmetric]
    by (simp add: val outcomes_for_def)
qed

subsection \<open>The choice between the bus and the bucket\<close>

text \<open>
  C7. When the file has been read, the serialised message is published to the topic
  \<^verbatim>\<open>WORKER_TOPIC\<close> if it is shorter than 5,242,880 bytes. Otherwise, so also at exactly
  5,242,880 bytes, its base64 text is saved in the bucket
  \<^verbatim>\<open>event-processing-<WORKER_TOPIC>\<close> under the name \<^verbatim>\<open>event-<id>\<close>, and nothing is
  published.
\<close>

theorem transport_selection:
  "let bytes = stringify cfg \<lparr>e_file = d, e_action = args msg, e_topic = TOPIC cfg,
                              e_id = job_id msg\<rparr>;
       s' = exec (processImage_after_readFile cfg msg file (Fulfilled d)) s
   in (length bytes < 5242880 \<longrightarrow>
         published s' = published s @ [(WORKER_TOPIC cfg, bytes)] \<and> saved s' = saved s)
    \<and> (5242880 \<le> length bytes \<longrightarrow>
         saved s' = saved s @ [(''event-processing-'' @ WORKER_TOPIC cfg,
                                ''event-'' @ job_id msg, base64 bytes)]
         \<and> published s' = published s)"
  by (simp add: processImage_after_readFile_def Let_def MAX_PUB_SUB_SIZE_def bucketName_def)

theorem transport_selection_witness:
  "published (exec (processImage_after_readFile
        \<lparr>TOPIC = ''replies'', WORKER_TOPIC = ''workers'', stringify = (\<lambda>e. e_file e)\<rparr>
        \<lparr>job_name = ''IMAGE_PROCESSING'', job_id = ''a1'',
         inputPaths = Some [\<lparr>path = ''img/a.png''\<rparr>], outputDir = ''public/static'',
         args = ''{}''\<rparr> ''img/a.png'' (Fulfilled [77, 97, 110])) init)
     = [(''workers'', [77, 97, 110])]
   \<and> saved (exec (processImage_after_readFile
        \<lparr>TOPIC = ''replies'', WORKER_TOPIC = ''workers'',
         stringify = (\<lambda>e. replicate 5242880 0)\<rparr>
        \<lparr>job_name = ''IMAGE_PROCESSING'', job_id = ''a1'',
         inputPaths = Some [\<lparr>path = ''img/a.png''\<rparr>], outputDir = ''public/static'',
         args = ''{}''\<rparr> ''img/a.png'' (Fulfilled [])) init)
     = [(''event-processing-workers'', ''event-a1'', base64 (replicate 5242880 0))]"
  using transport_selection
          [of "\<lparr>TOPIC = ''replies'', WORKER_TOPIC = ''workers'', stringify = (\<lambda>e. e_file e)\<rparr>"
              "[77, 97, 110]"
              "\<lparr>job_name = ''IMAGE_PROCESSING'', job_id = ''a1'',
                inputPaths = Some [\<lparr>path = ''img/a.png''\<rparr>], outputDir = ''public/static'',
                args = ''{}''\<rparr>" "''img/a.png''" init]
        transport_selection
          [of "\<lparr>TOPIC = ''replies'', WORKER_TOPIC = ''workers'',
                stringify = (\<lambda>e. replicate 5242880 0)\<rparr>"
              "[]"
              "\<lparr>job_name = ''IMAGE_PROCESSING'', job_id = ''a1'',
                inputPaths = Some [\<lparr>path = ''img/a.png''\<rparr>], outputDir = ''public/static'',
                args = ''{}''\<rparr>" "''img/a.png''" init]
  by (simp add: Let_def init_def)

subsection \<open>Storing a closure under an id that has one\<close>

text \<open>
  C8, as amended. Line 133 stores the closure whatever \<^verbatim>\<open>jobsInProcess\<close> holds: an entry
  that is there for the id is replaced, no promise is rejected and no exception is
  thrown, and the code goes on to the send. The map has one closure per id at most, the
  one stored last.
\<close>

theorem register_replaces:
  "let s' = exec (processImage_after_readFile cfg msg file (Fulfilled d)) s
   in jobsInProcess s' = (jobsInProcess s)(job_id msg \<mapsto> \<lparr>cb_msg = msg, cb_file = file\<rparr>)
    \<and> rejections s' = rejections s \<and> uncaught s' = uncaught s
    \<and> pending s' = pending s @ [Transport msg file]"
  by (simp add: processImage_after_readFile_def Let_def)

theorem register_counterexample:
  "jobsInProcess
     (run example_config
        [FromGatsby \<lparr>gm_type = JOB_CREATED, gm_payload = example_job\<rparr>,
         Settles 0 (Fulfilled [77, 97, 110])] init) ''a1''
     = Some \<lparr>cb_msg = example_job, cb_file = ''img/a.png''\<rparr>
   \<and> jobsInProcess
       (run example_config
          [FromGatsby \<lparr>gm_type = JOB_CREATED, gm_payload = example_job\<rparr>,
           Settles 0 (Fulfilled [77, 97, 110]),
           FromGatsby \<lparr>gm_type = JOB_CREATED,
                       gm_payload = example_job\<lparr>inputPaths := Some [\<lparr>path = ''img/b.png''\<rparr>]\<rparr>\<rparr>,
           Settles 1 (Fulfilled [66])] init) ''a1''
     = Some \<lparr>cb_msg = example_job\<lparr>inputPaths := Some [\<lparr>path = ''img/b.png''\<rparr>]\<rparr>,
             cb_file = ''img/b.png''\<rparr>
   \<and> rejections
       (run example_config
          [FromGatsby \<lparr>gm_type = JOB_CREATED, gm_payload = example_job\<rparr>,
           Settles 0 (Fulfilled [77, 97, 110]),
           FromGatsby \<lparr>gm_type = JOB_CREATED,
                       gm_payload = example_job\<lparr>inputPaths := Some [\<lparr>path = ''img/b.png''\<rparr>]\<rparr>\<rparr>,
           Settles 1 (Fulfilled [66])] init)
     = []
   \<and> uncaught
       (run example_config
          [FromGatsby \<lparr>gm_type = JOB_CREATED, gm_payload = example_job\<rparr>,
           Settles 0 (Fulfilled [77, 97, 110]),
           FromGatsby \<lparr>gm_type = JOB_CREATED,
                       gm_payload = example_job\<lparr>inputPaths := Some [\<lparr>path = ''img/b.png''\<rparr>]\<rparr>\<rparr>,
           Settles 1 (Fulfilled [66])] init)
     = None"
  by (simp add: example_defs code_defs step_def without_def init_def message_types)

subsection \<open>\<^verbatim>\<open>JOB_FAILED\<close> is sent only for a job without an entry\<close>



subsection \<open>A job request without \<^verbatim>\<open>inputPaths\<close>\<close>

text \<open>
  C10. A \<^verbatim>\<open>JOB_CREATED\<close> message for an image job whose \<^verbatim>\<open>inputPaths\<close> is absent makes
  the listener send \<^verbatim>\<open>JOB_FAILED\<close> with the job's id and the error
  \<^verbatim>\<open>Wrong number of input paths\<close>, and log twice. Nothing else of the state changes: no
  entry in \<^verbatim>\<open>jobsInProcess\<close>, nothing published or saved, no timer, no waiting code, no
  rejected promise and no exception.
\<close>

theorem absent_inputPaths_reports_failure:
  assumes "gm_type m = JOB_CREATED"
      and "job_name (gm_payload m) = ''IMAGE_PROCESSING''"
      and "inputPaths (gm_payload m) = None"
  shows "exec (gatsbyProcess_on_message m) s =
           s\<lparr>gatsbySent := gatsbySent s @
                 [\<lparr>ipc_type = JOB_FAILED,
                   ipc_payload = IdError (job_id (gm_payload m)) ''Wrong number of input paths''\<rparr>],
              logs := logs s @ [(Trace, ''Got gatsby message''),
                                (Error, ''Wrong number of input paths in msg: '')]\<rparr>"
  using assms
  by (simp add: gatsbyProcess_on_message_def JOB_TYPES_def processImage_def
      wrong_number_of_input_paths_def)

theorem absent_inputPaths_reports_failure_witness:
  "exec (gatsbyProcess_on_message
           \<lparr>gm_type = ''JOB_CREATED'',
            gm_payload = \<lparr>job_name = ''IMAGE_PROCESSING'', job_id = ''a1'', inputPaths = None,
                          outputDir = ''public/static'', args = ''{}''\<rparr>\<rparr>) init
   = init\<lparr>gatsbySent := [\<lparr>ipc_type = ''JOB_FAILED'',
                            ipc_payload = IdError ''a1'' ''Wrong number of input paths''\<rparr>],
          logs := [(Trace, ''Got gatsby message''),
                   (Error, ''Wrong number of input paths in msg: '')]\<rparr>"
  using absent_inputPaths_reports_failure
          [of "\<lparr>gm_type = ''JOB_CREATED'',
                gm_payload = \<lparr>job_name = ''IMAGE_PROCESSING'', job_id = ''a1'',
                              inputPaths = None, outputDir = ''public/static'',
                              args = ''{}''\<rparr>\<rparr>" init]
  by (simp add: message_types init_def)

end
